theory Spec2Isabelle
  imports Complex_Main "HOL-Library.Word"
begin

unbundle bit_operations_syntax

section \<open>Build configuration\<close>

text \<open>
  \<^verbatim>\<open>Number.h\<close> selects its code with four preprocessor symbols. \<^verbatim>\<open>_MSC_VER\<close> is
  tested before \<^verbatim>\<open>__GNUC__\<close>; when neither is defined the shift-and-mask code is
  compiled. The two \<^verbatim>\<open>BDN_STD_..._INT_MISSING\<close> symbols come from \<^verbatim>\<open>bdn/config.h\<close>.
\<close>

record config =
  MSC_VER :: bool
  GNUC :: bool
  STD_ISNAN_INT_MISSING :: bool
  STD_ISFINITE_INT_MISSING :: bool

definition gnu_config :: config where
  "gnu_config = \<lparr>MSC_VER = False, GNUC = True,
     STD_ISNAN_INT_MISSING = False, STD_ISFINITE_INT_MISSING = False\<rparr>"

definition msc_config :: config where
  "msc_config = \<lparr>MSC_VER = True, GNUC = False,
     STD_ISNAN_INT_MISSING = True, STD_ISFINITE_INT_MISSING = True\<rparr>"

section \<open>Built-in shifts of the language\<close>

text \<open>
  Integers are bit patterns: \<open>8 word\<close>, \<open>16 word\<close>, \<open>32 word\<close> and \<open>64 word\<close> stand
  for the signed and the unsigned type of that width alike, and \<open>int\<close> has 32 bits.
  A conversion between integer types of different widths keeps the low bits
  (\<open>ucast\<close>); between the signed and the unsigned type of one width it keeps all bits.

  A shift whose count is negative, or not smaller than the width of the promoted left
  operand, has no defined result in C++. The model returns a fault there instead of the
  value HOL's total \<open>push_bit\<close> and \<open>drop_bit\<close> would give. The second fault stands for a
  width that has no \<^verbatim>\<open>_IntOpImpl\<close> specialisation, which the compiler rejects.
\<close>

datatype fault = Undefined_Shift | No_IntOpImpl

text \<open>\<^verbatim>\<open>a << n\<close> and \<^verbatim>\<open>a >> n\<close> on an unsigned operand that is not promoted
  (\<^verbatim>\<open>uint32_t\<close>, \<^verbatim>\<open>uint64_t\<close>).\<close>

definition shl_unsigned :: "'a::len word \<Rightarrow> int \<Rightarrow> fault + 'a word" where
  "shl_unsigned a n =
     (if 0 \<le> n \<and> n < int LENGTH('a) then Inr (push_bit (nat n) a) else Inl Undefined_Shift)"

definition shr_unsigned :: "'a::len word \<Rightarrow> int \<Rightarrow> fault + 'a word" where
  "shr_unsigned a n =
     (if 0 \<le> n \<and> n < int LENGTH('a) then Inr (drop_bit (nat n) a) else Inl Undefined_Shift)"

text \<open>\<^verbatim>\<open>a << n\<close> and \<^verbatim>\<open>a >> n\<close> on an operand of type \<^verbatim>\<open>int\<close>, which is what a
  \<^verbatim>\<open>uint8_t\<close> or \<^verbatim>\<open>uint16_t\<close> operand is promoted to. The left shift is defined when the
  operand is not negative and the shifted value fits the unsigned type of the same
  width (the rule of C++14 and C++17); the right shift is arithmetic.\<close>

definition shl_int :: "32 word \<Rightarrow> int \<Rightarrow> fault + 32 word" where
  "shl_int a n =
     (if 0 \<le> n \<and> n < 32 \<and> 0 \<le> sint a \<and> sint a * 2 ^ nat n < 2 ^ 32
      then Inr (push_bit (nat n) a) else Inl Undefined_Shift)"

definition shr_int :: "32 word \<Rightarrow> int \<Rightarrow> fault + 32 word" where
  "shr_int a n =
     (if 0 \<le> n \<and> n < 32 then Inr (signed_drop_bit (nat n) a) else Inl Undefined_Shift)"

text \<open>\<^verbatim>\<open>x | y\<close> where either operand may have faulted.\<close>

definition or_result :: "fault + 'a::len word \<Rightarrow> fault + 'a word \<Rightarrow> fault + 'a word" where
  "or_result x y =
     (case x of Inl e \<Rightarrow> Inl e
      | Inr a \<Rightarrow> (case y of Inl e \<Rightarrow> Inl e | Inr b \<Rightarrow> Inr (a OR b)))"

text \<open>Conversion of a computed value to the return type, and sequencing of two calls.\<close>

definition convert_result :: "fault + 'a::len word \<Rightarrow> fault + 'b::len word" where
  "convert_result x = (case x of Inl e \<Rightarrow> Inl e | Inr a \<Rightarrow> Inr (ucast a))"

definition and_then :: "fault + 'a \<Rightarrow> ('a \<Rightarrow> fault + 'b) \<Rightarrow> fault + 'b" where
  "and_then x f = (case x of Inl e \<Rightarrow> Inl e | Inr a \<Rightarrow> f a)"

section \<open>Compiler intrinsics\<close>

text \<open>
  The intrinsics belong to the compiler, not to the repository. The spec asks an
  implementation to prefer them and to fall back to the shift form, with identical
  values: a rotate intrinsic is the cyclic shift, a byte-swap intrinsic reverses the
  byte sequence of the value.
\<close>

text \<open>Modelled from the spec: \<^verbatim>\<open>_rotl\<close> and \<^verbatim>\<open>_rotl64\<close>, missing from the sources, rotate the
  value to the left by the count taken modulo the width.\<close>

definition intrinsic_rotl :: "'a::len word \<Rightarrow> int \<Rightarrow> 'a word" where
  "intrinsic_rotl val bits = word_rotl (nat (bits mod int LENGTH('a))) val"

text \<open>Modelled from the spec: \<^verbatim>\<open>_rotr\<close> and \<^verbatim>\<open>_rotr64\<close>, missing from the sources, rotate the
  value to the right by the count taken modulo the width.\<close>

definition intrinsic_rotr :: "'a::len word \<Rightarrow> int \<Rightarrow> 'a word" where
  "intrinsic_rotr val bits = word_rotr (nat (bits mod int LENGTH('a))) val"

text \<open>The bytes of a value, least significant first, and the value of a byte sequence.\<close>

definition bytes_of :: "'a::len word \<Rightarrow> 8 word list" where
  "bytes_of val = map (\<lambda>i. ucast (drop_bit (8 * i) val)) [0..<LENGTH('a) div 8]"

fun word_of_bytes :: "8 word list \<Rightarrow> 'a::len word" where
  "word_of_bytes [] = 0"
| "word_of_bytes (b # bs) = ucast b OR push_bit 8 (word_of_bytes bs)"

text \<open>Modelled from the spec: \<^verbatim>\<open>_byteswap_ushort\<close>, \<^verbatim>\<open>_byteswap_ulong\<close>, \<^verbatim>\<open>_byteswap_uint64\<close>,
  \<^verbatim>\<open>__builtin_bswap16\<close>, \<^verbatim>\<open>__builtin_bswap32\<close> and \<^verbatim>\<open>__builtin_bswap64\<close>, missing from the
  sources, reverse the byte sequence of the value.\<close>

definition intrinsic_bswap :: "'a::len word \<Rightarrow> 'a word" where
  "intrinsic_bswap val = word_of_bytes (rev (bytes_of val))"

section \<open>The width bundles \<^verbatim>\<open>_IntOpImpl<1>\<close>, \<^verbatim>\<open><2>\<close>, \<^verbatim>\<open><4>\<close>, \<^verbatim>\<open><8>\<close>\<close>

text \<open>
  The count \<^verbatim>\<open>bits\<close> is an \<^verbatim>\<open>int\<close>. A count below 0 makes the shift by \<^verbatim>\<open>bits\<close> fault and
  a count above the width makes the shift by the width minus \<^verbatim>\<open>bits\<close> fault, so the
  model loses nothing by letting \<open>bits\<close> range over all integers.
\<close>

text \<open>\<^verbatim>\<open>_IntOpImpl<1>\<close>: the \<^verbatim>\<open>uint8_t\<close> operand is promoted to \<^verbatim>\<open>int\<close>, the result is
  converted back to \<^verbatim>\<open>uint8_t\<close>.\<close>

definition IntOpImpl1_rotateBitsLeftImpl :: "8 word \<Rightarrow> int \<Rightarrow> fault + 8 word" where
  "IntOpImpl1_rotateBitsLeftImpl val bits =
     convert_result (or_result (shl_int (ucast val) bits) (shr_int (ucast val) (8 - bits)))"

definition IntOpImpl1_rotateBitsRightImpl :: "8 word \<Rightarrow> int \<Rightarrow> fault + 8 word" where
  "IntOpImpl1_rotateBitsRightImpl val bits =
     convert_result (or_result (shr_int (ucast val) bits) (shl_int (ucast val) (8 - bits)))"

definition IntOpImpl1_invertByteOrderImpl :: "8 word \<Rightarrow> 8 word" where
  "IntOpImpl1_invertByteOrderImpl val = val"

text \<open>\<^verbatim>\<open>_IntOpImpl<2>\<close>: again computed in \<^verbatim>\<open>int\<close>. The shift counts of the byte swap are
  the literal 8 on an operand below \<open>2 ^ 16\<close>, so those shifts are always defined
  (lemma \<open>bswap16_literal_shifts_defined\<close> below).\<close>

definition IntOpImpl2_rotateBitsLeftImpl :: "16 word \<Rightarrow> int \<Rightarrow> fault + 16 word" where
  "IntOpImpl2_rotateBitsLeftImpl val bits =
     convert_result (or_result (shl_int (ucast val) bits) (shr_int (ucast val) (16 - bits)))"

definition IntOpImpl2_rotateBitsRightImpl :: "16 word \<Rightarrow> int \<Rightarrow> fault + 16 word" where
  "IntOpImpl2_rotateBitsRightImpl val bits =
     convert_result (or_result (shr_int (ucast val) bits) (shl_int (ucast val) (16 - bits)))"

definition IntOpImpl2_invertByteOrderImpl :: "config \<Rightarrow> 16 word \<Rightarrow> 16 word" where
  "IntOpImpl2_invertByteOrderImpl cfg val =
     (if MSC_VER cfg then intrinsic_bswap val
      else if GNUC cfg then intrinsic_bswap val
      else ucast (push_bit 8 ((ucast val :: 32 word) AND 0xff)
                  OR signed_drop_bit 8 ((ucast val :: 32 word) AND 0xff00)))"

text \<open>\<^verbatim>\<open>_IntOpImpl<4>\<close>: \<^verbatim>\<open>uint32_t\<close> is not promoted.\<close>

definition IntOpImpl4_rotateBitsLeftImpl :: "config \<Rightarrow> 32 word \<Rightarrow> int \<Rightarrow> fault + 32 word" where
  "IntOpImpl4_rotateBitsLeftImpl cfg val bits =
     (if MSC_VER cfg then Inr (intrinsic_rotl val bits)
      else or_result (shl_unsigned val bits) (shr_unsigned val (32 - bits)))"

definition IntOpImpl4_rotateBitsRightImpl :: "config \<Rightarrow> 32 word \<Rightarrow> int \<Rightarrow> fault + 32 word" where
  "IntOpImpl4_rotateBitsRightImpl cfg val bits =
     (if MSC_VER cfg then Inr (intrinsic_rotr val bits)
      else or_result (shr_unsigned val bits) (shl_unsigned val (32 - bits)))"

definition IntOpImpl4_invertByteOrderImpl :: "config \<Rightarrow> 32 word \<Rightarrow> 32 word" where
  "IntOpImpl4_invertByteOrderImpl cfg val =
     (if MSC_VER cfg then intrinsic_bswap val
      else if GNUC cfg then intrinsic_bswap val
      else push_bit 24 (val AND 0xff) OR push_bit 8 (val AND 0xff00)
           OR drop_bit 8 (val AND 0xff0000) OR drop_bit 24 (val AND 0xff000000))"

text \<open>\<^verbatim>\<open>_IntOpImpl<8>\<close>.\<close>

definition IntOpImpl8_rotateBitsLeftImpl :: "config \<Rightarrow> 64 word \<Rightarrow> int \<Rightarrow> fault + 64 word" where
  "IntOpImpl8_rotateBitsLeftImpl cfg val bits =
     (if MSC_VER cfg then Inr (intrinsic_rotl val bits)
      else or_result (shl_unsigned val bits) (shr_unsigned val (64 - bits)))"

definition IntOpImpl8_rotateBitsRightImpl :: "config \<Rightarrow> 64 word \<Rightarrow> int \<Rightarrow> fault + 64 word" where
  "IntOpImpl8_rotateBitsRightImpl cfg val bits =
     (if MSC_VER cfg then Inr (intrinsic_rotr val bits)
      else or_result (shr_unsigned val bits) (shl_unsigned val (64 - bits)))"

definition IntOpImpl8_invertByteOrderImpl :: "config \<Rightarrow> 64 word \<Rightarrow> 64 word" where
  "IntOpImpl8_invertByteOrderImpl cfg val =
     (if MSC_VER cfg then intrinsic_bswap val
      else if GNUC cfg then intrinsic_bswap val
      else push_bit 56 (val AND 0xff) OR push_bit 40 (val AND 0xff00)
           OR push_bit 24 (val AND 0xff0000) OR push_bit 8 (val AND 0xff000000)
           OR drop_bit 8 (val AND 0xff00000000) OR drop_bit 24 (val AND 0xff0000000000)
           OR drop_bit 40 (val AND 0xff000000000000)
           OR drop_bit 56 (val AND 0xff00000000000000))"

section \<open>The generic functions\<close>

text \<open>
  \<^verbatim>\<open>invertByteOrder\<close>, \<^verbatim>\<open>rotateBitsLeft\<close> and \<^verbatim>\<open>rotateBitsRight\<close> take any integer type,
  pick the bundle by \<^verbatim>\<open>sizeof\<close>, pass the argument as the unsigned type of that width
  and cast the result back.
\<close>

definition invertByteOrder :: "config \<Rightarrow> 'a::len word \<Rightarrow> fault + 'a word" where
  "invertByteOrder cfg v =
     (if LENGTH('a) = 8 then Inr (ucast (IntOpImpl1_invertByteOrderImpl (ucast v)))
      else if LENGTH('a) = 16 then Inr (ucast (IntOpImpl2_invertByteOrderImpl cfg (ucast v)))
      else if LENGTH('a) = 32 then Inr (ucast (IntOpImpl4_invertByteOrderImpl cfg (ucast v)))
      else if LENGTH('a) = 64 then Inr (ucast (IntOpImpl8_invertByteOrderImpl cfg (ucast v)))
      else Inl No_IntOpImpl)"

definition rotateBitsLeft :: "config \<Rightarrow> 'a::len word \<Rightarrow> int \<Rightarrow> fault + 'a word" where
  "rotateBitsLeft cfg v bits =
     (if LENGTH('a) = 8 then convert_result (IntOpImpl1_rotateBitsLeftImpl (ucast v) bits)
      else if LENGTH('a) = 16 then convert_result (IntOpImpl2_rotateBitsLeftImpl (ucast v) bits)
      else if LENGTH('a) = 32
        then convert_result (IntOpImpl4_rotateBitsLeftImpl cfg (ucast v) bits)
      else if LENGTH('a) = 64
        then convert_result (IntOpImpl8_rotateBitsLeftImpl cfg (ucast v) bits)
      else Inl No_IntOpImpl)"

definition rotateBitsRight :: "config \<Rightarrow> 'a::len word \<Rightarrow> int \<Rightarrow> fault + 'a word" where
  "rotateBitsRight cfg v bits =
     (if LENGTH('a) = 8 then convert_result (IntOpImpl1_rotateBitsRightImpl (ucast v) bits)
      else if LENGTH('a) = 16 then convert_result (IntOpImpl2_rotateBitsRightImpl (ucast v) bits)
      else if LENGTH('a) = 32
        then convert_result (IntOpImpl4_rotateBitsRightImpl cfg (ucast v) bits)
      else if LENGTH('a) = 64
        then convert_result (IntOpImpl8_rotateBitsRightImpl cfg (ucast v) bits)
      else Inl No_IntOpImpl)"

section \<open>Base types of the wrapper\<close>

text \<open>
  The floating-point types, their built-in operators and the host library
  (\<^verbatim>\<open>std::numeric_limits\<close>, \<^verbatim>\<open>std::isnan\<close>, \<^verbatim>\<open>std::isfinite\<close>) are not part of the
  repository; the spec refers to them as the IEEE values and the usual IEEE rules.
\<close>

datatype sign = Positive | Negative

text \<open>Modelled from the spec: the values of \<^verbatim>\<open>float\<close>, \<^verbatim>\<open>double\<close> and \<^verbatim>\<open>long double\<close>, whose
  declaration is missing from the sources. A value is a NaN, an infinity with its sign,
  or a finite value, identified with the rational number it denotes (the two zeros are
  one value).\<close>

datatype ieee = NaN | Infinite sign | Finite rat

fun opposite :: "sign \<Rightarrow> sign" where
  "opposite Positive = Negative"
| "opposite Negative = Positive"

text \<open>Modelled from the spec: the built-in \<^verbatim>\<open>==\<close> and \<^verbatim>\<open><\<close> of a floating-point type, missing
  from the sources. NaN is unordered and equal to nothing, itself included; the
  infinities lie below and above every finite value; finite values compare as the
  numbers they denote. \<^verbatim>\<open><=\<close> is \<^verbatim>\<open><\<close> or \<^verbatim>\<open>==\<close>.\<close>

fun ieee_eq :: "ieee \<Rightarrow> ieee \<Rightarrow> bool" where
  "ieee_eq NaN b = False"
| "ieee_eq a NaN = False"
| "ieee_eq a b = (a = b)"

fun ieee_lt :: "ieee \<Rightarrow> ieee \<Rightarrow> bool" where
  "ieee_lt NaN b = False"
| "ieee_lt a NaN = False"
| "ieee_lt (Infinite Negative) (Infinite Negative) = False"
| "ieee_lt (Infinite Negative) b = True"
| "ieee_lt a (Infinite Negative) = False"
| "ieee_lt (Infinite Positive) b = False"
| "ieee_lt (Finite x) (Infinite Positive) = True"
| "ieee_lt (Finite x) (Finite y) = (x < y)"

definition ieee_le :: "ieee \<Rightarrow> ieee \<Rightarrow> bool" where
  "ieee_le a b = (ieee_lt a b \<or> ieee_eq a b)"

text \<open>Modelled from the spec: the built-in \<^verbatim>\<open>-\<close> of a floating-point type, missing from
  the sources. A NaN operand gives NaN, an infinity minus itself gives NaN, otherwise an
  infinite operand decides the result; the difference of two finite values is rounded
  by the format, \<open>rnd\<close>, a parameter.\<close>

fun ieee_minus :: "(rat \<Rightarrow> ieee) \<Rightarrow> ieee \<Rightarrow> ieee \<Rightarrow> ieee" where
  "ieee_minus rnd NaN b = NaN"
| "ieee_minus rnd a NaN = NaN"
| "ieee_minus rnd (Infinite s) (Infinite t) = (if s = t then NaN else Infinite s)"
| "ieee_minus rnd (Infinite s) (Finite y) = Infinite s"
| "ieee_minus rnd (Finite x) (Infinite t) = Infinite (opposite t)"
| "ieee_minus rnd (Finite x) (Finite y) = rnd (x - y)"

text \<open>Modelled from the spec: \<^verbatim>\<open>std::isnan\<close> and \<^verbatim>\<open>std::isfinite\<close> on a floating-point
  argument, missing from the sources: true only for NaN, and true when the value is
  neither infinite nor NaN.\<close>

fun ieee_isnan :: "ieee \<Rightarrow> bool" where
  "ieee_isnan NaN = True"
| "ieee_isnan a = False"

fun ieee_isfinite :: "ieee \<Rightarrow> bool" where
  "ieee_isfinite (Finite x) = True"
| "ieee_isfinite a = False"

text \<open>
  What the templates take from their type parameter: the built-in operators, the
  conversion of the literal \<^verbatim>\<open>0\<close>, the members of \<^verbatim>\<open>std::numeric_limits\<close> and the
  overloads of \<^verbatim>\<open>std::isnan\<close> and \<^verbatim>\<open>std::isfinite\<close>.
\<close>

record 'a numeric =
  builtin_eq :: "'a \<Rightarrow> 'a \<Rightarrow> bool"
  builtin_ne :: "'a \<Rightarrow> 'a \<Rightarrow> bool"
  builtin_lt :: "'a \<Rightarrow> 'a \<Rightarrow> bool"
  builtin_le :: "'a \<Rightarrow> 'a \<Rightarrow> bool"
  builtin_gt :: "'a \<Rightarrow> 'a \<Rightarrow> bool"
  builtin_ge :: "'a \<Rightarrow> 'a \<Rightarrow> bool"
  builtin_minus :: "'a \<Rightarrow> 'a \<Rightarrow> 'a"
  literal_0 :: 'a
  limits_infinity :: 'a
  limits_quiet_NaN :: 'a
  limits_has_infinity :: bool
  limits_has_quiet_NaN :: bool
  limits_is_signed :: bool
  limits_is_integer :: bool
  std_isnan :: "'a \<Rightarrow> bool"
  std_isfinite :: "'a \<Rightarrow> bool"

text \<open>
  Modelled from the spec: what the language and \<^verbatim>\<open>std::numeric_limits\<close>, \<^verbatim>\<open>std::isnan\<close>,
  \<^verbatim>\<open>std::isfinite\<close>, missing from the sources, provide for an integer type, signed or
  unsigned, of any width. Comparisons read the operands as two's complement or as
  unsigned numbers, subtraction wraps. The type has neither an infinity nor a NaN, and
  \<^verbatim>\<open>infinity()\<close> is 0. The spec leaves \<^verbatim>\<open>nan()\<close> open for such a type; \<^verbatim>\<open>quiet_NaN()\<close> of an
  integer specialisation returns the value-initialised \<^verbatim>\<open>T()\<close>, which is 0. On an integer
  \<^verbatim>\<open>std::isnan\<close> is false and \<^verbatim>\<open>std::isfinite\<close> is true.
\<close>

definition integer_type :: "bool \<Rightarrow> 'a::len word numeric" where
  "integer_type is_signed =
     \<lparr>builtin_eq = (\<lambda>a b. a = b),
      builtin_ne = (\<lambda>a b. a \<noteq> b),
      builtin_lt = (\<lambda>a b. if is_signed then sint a < sint b else uint a < uint b),
      builtin_le = (\<lambda>a b. if is_signed then sint a \<le> sint b else uint a \<le> uint b),
      builtin_gt = (\<lambda>a b. if is_signed then sint a > sint b else uint a > uint b),
      builtin_ge = (\<lambda>a b. if is_signed then sint a \<ge> sint b else uint a \<ge> uint b),
      builtin_minus = (\<lambda>a b. a - b),
      literal_0 = 0,
      limits_infinity = 0,
      limits_quiet_NaN = 0,
      limits_has_infinity = False,
      limits_has_quiet_NaN = False,
      limits_is_signed = is_signed,
      limits_is_integer = True,
      std_isnan = (\<lambda>v. False),
      std_isfinite = (\<lambda>v. True)\<rparr>"

text \<open>Modelled from the spec: what the language and \<^verbatim>\<open>std::numeric_limits\<close>, \<^verbatim>\<open>std::isnan\<close>,
  \<^verbatim>\<open>std::isfinite\<close>, missing from the sources, provide for a floating-point type whose
  arithmetic rounds with \<open>rnd\<close>: the IEEE comparisons and subtraction, the literal
  \<^verbatim>\<open>0\<close> converted to the type, the positive infinity and a quiet NaN.\<close>

definition floating_type :: "(rat \<Rightarrow> ieee) \<Rightarrow> ieee numeric" where
  "floating_type rnd =
     \<lparr>builtin_eq = ieee_eq,
      builtin_ne = (\<lambda>a b. \<not> ieee_eq a b),
      builtin_lt = ieee_lt,
      builtin_le = ieee_le,
      builtin_gt = (\<lambda>a b. ieee_lt b a),
      builtin_ge = (\<lambda>a b. ieee_le b a),
      builtin_minus = ieee_minus rnd,
      literal_0 = Finite 0,
      limits_infinity = Infinite Positive,
      limits_quiet_NaN = NaN,
      limits_has_infinity = True,
      limits_has_quiet_NaN = True,
      limits_is_signed = True,
      limits_is_integer = False,
      std_isnan = ieee_isnan,
      std_isfinite = ieee_isfinite\<rparr>"

section \<open>The class template \<^verbatim>\<open>Number\<close>\<close>

text \<open>An object holds the one field \<^verbatim>\<open>_value\<close>. The static members depend on the base
  type only.\<close>

record 'a Number =
  m_value :: 'a

definition Number_ctor :: "'a \<Rightarrow> 'a Number" where
  "Number_ctor v = \<lparr>m_value = v\<rparr>"

definition Number_default :: "'a numeric \<Rightarrow> 'a Number" where
  "Number_default T = Number_ctor (literal_0 T)"

definition getValue :: "'a Number \<Rightarrow> 'a" where
  "getValue n = m_value n"

definition setValue :: "'a Number \<Rightarrow> 'a \<Rightarrow> 'a Number" where
  "setValue n val = n\<lparr>m_value := val\<rparr>"

definition Number_infinity :: "'a numeric \<Rightarrow> 'a" where
  "Number_infinity T = limits_infinity T"

definition Number_negativeInfinity :: "'a numeric \<Rightarrow> 'a" where
  "Number_negativeInfinity T = builtin_minus T (literal_0 T) (limits_infinity T)"

definition Number_nan :: "'a numeric \<Rightarrow> 'a" where
  "Number_nan T = limits_quiet_NaN T"

definition hasInfinity :: "'a numeric \<Rightarrow> bool" where
  "hasInfinity T = limits_has_infinity T"

definition hasNan :: "'a numeric \<Rightarrow> bool" where
  "hasNan T = limits_has_quiet_NaN T"

definition isSigned :: "'a numeric \<Rightarrow> bool" where
  "isSigned T = limits_is_signed T"

definition isInteger :: "'a numeric \<Rightarrow> bool" where
  "isInteger T = limits_is_integer T"

definition operator_eq :: "'a numeric \<Rightarrow> 'a Number \<Rightarrow> 'a \<Rightarrow> bool" where
  "operator_eq T n otherValue = builtin_eq T (m_value n) otherValue"

definition operator_ne :: "'a numeric \<Rightarrow> 'a Number \<Rightarrow> 'a \<Rightarrow> bool" where
  "operator_ne T n otherValue = builtin_ne T (m_value n) otherValue"

definition operator_lt :: "'a numeric \<Rightarrow> 'a Number \<Rightarrow> 'a \<Rightarrow> bool" where
  "operator_lt T n otherValue = builtin_lt T (m_value n) otherValue"

definition operator_le :: "'a numeric \<Rightarrow> 'a Number \<Rightarrow> 'a \<Rightarrow> bool" where
  "operator_le T n otherValue = builtin_le T (m_value n) otherValue"

definition operator_gt :: "'a numeric \<Rightarrow> 'a Number \<Rightarrow> 'a \<Rightarrow> bool" where
  "operator_gt T n otherValue = builtin_gt T (m_value n) otherValue"

definition operator_ge :: "'a numeric \<Rightarrow> 'a Number \<Rightarrow> 'a \<Rightarrow> bool" where
  "operator_ge T n otherValue = builtin_ge T (m_value n) otherValue"

section \<open>\<^verbatim>\<open>isNan\<close> and \<^verbatim>\<open>isFinite\<close>\<close>

text \<open>\<^verbatim>\<open>MscNumberUtilHelper_<IsFloatingPoint>\<close>: the primary template answers with
  constants, the specialisation for \<^verbatim>\<open>true\<close> calls the host library.\<close>

definition MscNumberUtilHelper_isNan :: "bool \<Rightarrow> 'a numeric \<Rightarrow> 'a \<Rightarrow> bool" where
  "MscNumberUtilHelper_isNan IsFloatingPoint T v =
     (if IsFloatingPoint then std_isnan T v else False)"

definition MscNumberUtilHelper_isFinite :: "bool \<Rightarrow> 'a numeric \<Rightarrow> 'a \<Rightarrow> bool" where
  "MscNumberUtilHelper_isFinite IsFloatingPoint T v =
     (if IsFloatingPoint then std_isfinite T v else True)"

definition isNan :: "config \<Rightarrow> 'a numeric \<Rightarrow> 'a \<Rightarrow> bool" where
  "isNan cfg T v =
     (if STD_ISNAN_INT_MISSING cfg
      then MscNumberUtilHelper_isNan (\<not> limits_is_integer T) T v
      else std_isnan T v)"

definition isFinite :: "config \<Rightarrow> 'a numeric \<Rightarrow> 'a \<Rightarrow> bool" where
  "isFinite cfg T v =
     (if STD_ISFINITE_INT_MISSING cfg
      then MscNumberUtilHelper_isFinite (\<not> limits_is_integer T) T v
      else std_isfinite T v)"

section \<open>The specialisations of \<^verbatim>\<open>std::hash\<close>\<close>

text \<open>
  The thirteen specialisations (for \<^verbatim>\<open>signed char\<close>, \<^verbatim>\<open>unsigned char\<close>, \<^verbatim>\<open>short\<close>,
  \<^verbatim>\<open>unsigned short\<close>, \<^verbatim>\<open>int\<close>, \<^verbatim>\<open>unsigned int\<close>, \<^verbatim>\<open>long\<close>, \<^verbatim>\<open>unsigned long\<close>,
  \<^verbatim>\<open>long long\<close>, \<^verbatim>\<open>unsigned long long\<close>, \<^verbatim>\<open>float\<close>, \<^verbatim>\<open>double\<close> and \<^verbatim>\<open>long double\<close>)
  have one body, which differs in the base type only. The host's hash of the base type
  is the parameter \<open>std_hash\<close>.
\<close>

definition hash_Number :: "('a \<Rightarrow> 'h) \<Rightarrow> 'a Number \<Rightarrow> 'h" where
  "hash_Number std_hash key = std_hash (getValue key)"

section \<open>Compositions the properties speak about\<close>

text \<open>\<^verbatim>\<open>rotateBitsRight(rotateBitsLeft(v, k), k)\<close>, \<^verbatim>\<open>rotateBitsLeft(rotateBitsRight(v, k), k)\<close>
  and \<^verbatim>\<open>invertByteOrder(invertByteOrder(v))\<close>: the inner call is evaluated first, and a fault
  of the inner call is the fault of the whole expression.\<close>

definition rotate_left_then_right :: "config \<Rightarrow> 'a::len word \<Rightarrow> int \<Rightarrow> fault + 'a word" where
  "rotate_left_then_right cfg v k =
     and_then (rotateBitsLeft cfg v k) (\<lambda>x. rotateBitsRight cfg x k)"

definition rotate_right_then_left :: "config \<Rightarrow> 'a::len word \<Rightarrow> int \<Rightarrow> fault + 'a word" where
  "rotate_right_then_left cfg v k =
     and_then (rotateBitsRight cfg v k) (\<lambda>x. rotateBitsLeft cfg x k)"

definition invert_twice :: "config \<Rightarrow> 'a::len word \<Rightarrow> fault + 'a word" where
  "invert_twice cfg v = and_then (invertByteOrder cfg v) (invertByteOrder cfg)"

section \<open>The shift idiom is a rotation where its shifts are defined\<close>

lemma rotl_idiom:
  fixes v :: "'a::len word"
  assumes "0 < k" "k < LENGTH('a)"
  shows "push_bit k v OR drop_bit (LENGTH('a) - k) v = word_rotl k v"
proof (rule bit_word_eqI)
  fix n assume n: "n < LENGTH('a)"
  show "bit (push_bit k v OR drop_bit (LENGTH('a) - k) v) n = bit (word_rotl k v) n"
  proof (cases "k \<le> n")
    case True
    then have "n + (LENGTH('a) - k) = (n - k) + LENGTH('a)"
      using assms by simp
    then have "(n + (LENGTH('a) - k)) mod LENGTH('a) = ((n - k) + LENGTH('a)) mod LENGTH('a)"
      by (simp only:)
    also have "\<dots> = n - k"
      using n by simp
    finally have "(n + (LENGTH('a) - k)) mod LENGTH('a) = n - k" .
    with True assms n show ?thesis
      by (auto simp: bit_or_iff bit_push_bit_iff bit_drop_bit_eq bit_word_rotl_iff dest: bit_imp_le_length)
  next
    case False
    with assms n have "(n + (LENGTH('a) - k)) mod LENGTH('a) = n + (LENGTH('a) - k)"
      by simp
    with False assms n show ?thesis
      by (auto simp: bit_or_iff bit_push_bit_iff bit_drop_bit_eq bit_word_rotl_iff add.commute)
  qed
qed

lemma word_rotl_zero: "word_rotl 0 (v :: 'a::len word) = v"
  by (rule bit_word_eqI) (simp add: bit_word_rotl_iff)

lemma word_rotr_zero: "word_rotr 0 (v :: 'a::len word) = v"
  by (rule bit_word_eqI) (simp add: bit_word_rotr_iff)

lemma word_rotl_length: "word_rotl LENGTH('a) (v :: 'a::len word) = v"
  by (rule bit_word_eqI) (simp add: bit_word_rotl_iff)

lemma word_rotr_length: "word_rotr LENGTH('a) (v :: 'a::len word) = v"
  by (rule bit_word_eqI) (simp add: bit_word_rotr_iff)

lemma drop_bit_length: "drop_bit LENGTH('a) (v :: 'a::len word) = 0"
  by (rule bit_word_eqI) (auto simp: bit_drop_bit_eq dest: bit_imp_le_length)

lemma push_bit_length: "push_bit LENGTH('a) (v :: 'a::len word) = 0"
  by (rule bit_word_eqI) (auto simp: bit_push_bit_iff)

lemma rotl_idiom_total:
  fixes v :: "'a::len word"
  assumes "k \<le> LENGTH('a)"
  shows "push_bit k v OR drop_bit (LENGTH('a) - k) v = word_rotl k v"
proof -
  consider "k = 0" | "k = LENGTH('a)" | "0 < k" "k < LENGTH('a)" using assms by fastforce
  then show ?thesis
  proof cases
    case 1 then show ?thesis by (simp add: drop_bit_length word_rotl_zero)
  next
    case 2 then show ?thesis by (simp add: push_bit_length word_rotl_length)
  next
    case 3 then show ?thesis by (rule rotl_idiom)
  qed
qed

lemma narrow_or_shifts:
  fixes v :: "'a::len word"
  assumes "LENGTH('a) \<le> 32"
  shows "(ucast (push_bit k (ucast v :: 32 word) OR drop_bit m (ucast v :: 32 word)) :: 'a word)
         = push_bit k v OR drop_bit m v"
  using assms
  by (intro bit_word_eqI)
     (auto simp: bit_or_iff bit_push_bit_iff bit_drop_bit_eq bit_ucast_iff dest: bit_imp_le_length)

lemma uint_promoted_bound:
  fixes v :: "'a::len word"
  assumes "LENGTH('a) \<le> 16"
  shows "uint v < 2 ^ 16"
proof -
  have "uint v < 2 ^ LENGTH('a)" by (rule uint_lt2p)
  also have "(2::int) ^ LENGTH('a) \<le> 2 ^ 16" using assms by (intro power_increasing) simp_all
  finally show ?thesis .
qed

lemma sint_promoted:
  fixes v :: "'a::len word"
  assumes "LENGTH('a) \<le> 16"
  shows "sint (ucast v :: 32 word) = uint v"
proof -
  have b: "uint v < 2 ^ 16" using assms by (rule uint_promoted_bound)
  have u: "uint (ucast v :: 32 word) = uint v"
    using assms by (simp add: uint_up_ucast is_up)
  have lo: "- (2 ^ 31) \<le> uint v"
    by (rule order_trans [OF _ uint_ge_0]) simp
  have hi: "uint v < 2 ^ 31"
    by (rule less_trans [OF b]) simp
  have "signed_take_bit 31 (uint v) = uint v"
    using lo hi by (rule signed_take_bit_int_eq_self)
  then show ?thesis
    by (simp add: sint_uint u)
qed

lemma shl_int_promoted:
  fixes v :: "'a::len word"
  assumes "LENGTH('a) \<le> 16" "0 \<le> n" "n \<le> 16"
  shows "shl_int (ucast v) n = Inr (push_bit (nat n) (ucast v))"
proof -
  have b: "uint v < 2 ^ 16" using assms(1) by (rule uint_promoted_bound)
  have "(2::int) ^ nat n \<le> 2 ^ 16" using assms by (intro power_increasing) simp_all
  with b uint_ge_0 [of v] have "uint v * 2 ^ nat n < 2 ^ 16 * 2 ^ 16"
    by (intro mult_less_le_imp_less) simp_all
  then show ?thesis using assms by (simp add: shl_int_def sint_promoted)
qed

lemma rotr_idiom:
  fixes v :: "'a::len word"
  assumes "0 < k" "k < LENGTH('a)"
  shows "drop_bit k v OR push_bit (LENGTH('a) - k) v = word_rotr k v"
proof (rule bit_word_eqI)
  fix n assume n: "n < LENGTH('a)"
  show "bit (drop_bit k v OR push_bit (LENGTH('a) - k) v) n = bit (word_rotr k v) n"
  proof (cases "n + k < LENGTH('a)")
    case True
    with assms n show ?thesis
      by (auto simp: bit_or_iff bit_push_bit_iff bit_drop_bit_eq bit_word_rotr_iff add.commute dest: bit_imp_le_length)
  next
    case False
    then have "(n + k) mod LENGTH('a) = n + k - LENGTH('a)"
      using assms n by (simp add: mod_if)
    moreover have "n - (LENGTH('a) - k) = n + k - LENGTH('a)"
      using False assms by simp
    ultimately show ?thesis using False assms n
      by (auto simp: bit_or_iff bit_push_bit_iff bit_drop_bit_eq bit_word_rotr_iff add.commute dest: bit_imp_le_length)
  qed
qed

lemma rotr_idiom_total:
  fixes v :: "'a::len word"
  assumes "k \<le> LENGTH('a)"
  shows "drop_bit k v OR push_bit (LENGTH('a) - k) v = word_rotr k v"
proof -
  consider "k = 0" | "k = LENGTH('a)" | "0 < k" "k < LENGTH('a)" using assms by fastforce
  then show ?thesis
  proof cases
    case 1 then show ?thesis by (simp add: push_bit_length word_rotr_zero)
  next
    case 2 then show ?thesis by (simp add: drop_bit_length word_rotr_length)
  next
    case 3 then show ?thesis by (rule rotr_idiom)
  qed
qed

lemma intrinsic_rotl_in_range:
  fixes v :: "'a::len word"
  assumes "0 \<le> k" "k \<le> int LENGTH('a)"
  shows "intrinsic_rotl v k = word_rotl (nat k) v"
proof (cases "k = int LENGTH('a)")
  case True
  then show ?thesis by (simp add: intrinsic_rotl_def word_rotl_zero word_rotl_length)
next
  case False
  with assms have "k mod int LENGTH('a) = k" by simp
  then show ?thesis by (simp add: intrinsic_rotl_def)
qed

lemma intrinsic_rotr_in_range:
  fixes v :: "'a::len word"
  assumes "0 \<le> k" "k \<le> int LENGTH('a)"
  shows "intrinsic_rotr v k = word_rotr (nat k) v"
proof (cases "k = int LENGTH('a)")
  case True
  then show ?thesis by (simp add: intrinsic_rotr_def word_rotr_zero word_rotr_length)
next
  case False
  with assms have "k mod int LENGTH('a) = k" by simp
  then show ?thesis by (simp add: intrinsic_rotr_def)
qed

lemma intrinsic_rotr_rotl: "intrinsic_rotr (intrinsic_rotl v k) k = v"
  by (simp add: intrinsic_rotr_def intrinsic_rotl_def)

lemma intrinsic_rotl_rotr: "intrinsic_rotl (intrinsic_rotr v k) k = v"
  by (simp add: intrinsic_rotr_def intrinsic_rotl_def)

lemma shr_int_promoted:
  fixes v :: "'a::len word"
  assumes "LENGTH('a) \<le> 16" "0 \<le> n" "n < 32"
  shows "shr_int (ucast v) n = Inr (drop_bit (nat n) (ucast v))"
proof -
  have "signed_drop_bit (nat n) (ucast v :: 32 word) = drop_bit (nat n) (ucast v)"
    using assms
    by (intro bit_word_eqI) (auto simp: bit_signed_drop_bit_iff bit_drop_bit_eq bit_ucast_iff dest: bit_imp_le_length)
  then show ?thesis using assms by (simp add: shr_int_def)
qed

lemma promoted_rotl:
  fixes v :: "'a::len word"
  assumes L: "LENGTH('a) \<le> 16" and k: "0 \<le> k" "k \<le> int LENGTH('a)"
  shows "(convert_result (or_result (shl_int (ucast v) k) (shr_int (ucast v) (int LENGTH('a) - k)))
            :: fault + 'a word)
         = Inr (intrinsic_rotl v k)"
proof -
  have a: "shl_int (ucast v) k = Inr (push_bit (nat k) (ucast v))"
    using L k by (intro shl_int_promoted) simp_all
  have b: "shr_int (ucast v) (int LENGTH('a) - k) = Inr (drop_bit (LENGTH('a) - nat k) (ucast v))"
    using L k shr_int_promoted [where v = v and n = "int LENGTH('a) - k"] by (simp add: nat_diff_distrib')
  have "(ucast (push_bit (nat k) (ucast v :: 32 word)
           OR drop_bit (LENGTH('a) - nat k) (ucast v :: 32 word)) :: 'a word)
        = push_bit (nat k) v OR drop_bit (LENGTH('a) - nat k) v"
    using L by (intro narrow_or_shifts) simp
  also have "\<dots> = word_rotl (nat k) v"
    using k by (intro rotl_idiom_total) simp
  finally show ?thesis
    using k by (simp add: a b or_result_def convert_result_def intrinsic_rotl_in_range)
qed

lemma promoted_rotr:
  fixes v :: "'a::len word"
  assumes L: "LENGTH('a) \<le> 16" and k: "0 \<le> k" "k \<le> int LENGTH('a)"
  shows "(convert_result (or_result (shr_int (ucast v) k) (shl_int (ucast v) (int LENGTH('a) - k)))
            :: fault + 'a word)
         = Inr (intrinsic_rotr v k)"
proof -
  have a: "shr_int (ucast v) k = Inr (drop_bit (nat k) (ucast v))"
    using L k by (intro shr_int_promoted) simp_all
  have b: "shl_int (ucast v) (int LENGTH('a) - k) = Inr (push_bit (LENGTH('a) - nat k) (ucast v))"
    using L k shl_int_promoted [where v = v and n = "int LENGTH('a) - k"] by (simp add: nat_diff_distrib')
  have "(ucast (push_bit (LENGTH('a) - nat k) (ucast v :: 32 word)
           OR drop_bit (nat k) (ucast v :: 32 word)) :: 'a word)
        = push_bit (LENGTH('a) - nat k) v OR drop_bit (nat k) v"
    using L by (intro narrow_or_shifts) simp
  also have "\<dots> = word_rotr (nat k) v"
    using k rotr_idiom_total [where k = "nat k" and v = v] by (simp add: or.commute)
  finally show ?thesis
    using k by (simp add: a b or_result_def convert_result_def intrinsic_rotr_in_range or.commute)
qed

lemma unsigned_rotl:
  fixes v :: "'a::len word"
  assumes "0 < k" "k < int LENGTH('a)"
  shows "or_result (shl_unsigned v k) (shr_unsigned v (int LENGTH('a) - k)) = Inr (intrinsic_rotl v k)"
proof -
  have "push_bit (nat k) v OR drop_bit (LENGTH('a) - nat k) v = word_rotl (nat k) v"
    using assms by (intro rotl_idiom_total) simp
  then show ?thesis
    using assms
    by (simp add: or_result_def shl_unsigned_def shr_unsigned_def nat_diff_distrib'
        intrinsic_rotl_in_range)
qed

lemma unsigned_rotr:
  fixes v :: "'a::len word"
  assumes "0 < k" "k < int LENGTH('a)"
  shows "or_result (shr_unsigned v k) (shl_unsigned v (int LENGTH('a) - k)) = Inr (intrinsic_rotr v k)"
proof -
  have "drop_bit (nat k) v OR push_bit (LENGTH('a) - nat k) v = word_rotr (nat k) v"
    using assms by (intro rotr_idiom_total) simp
  then show ?thesis
    using assms
    by (simp add: or_result_def shl_unsigned_def shr_unsigned_def nat_diff_distrib'
        intrinsic_rotr_in_range)
qed

lemma unsigned_rotl_undefined:
  fixes v :: "'a::len word"
  assumes "k \<le> 0 \<or> int LENGTH('a) \<le> k"
  shows "or_result (shl_unsigned v k) (shr_unsigned v (int LENGTH('a) - k)) = Inl Undefined_Shift"
  using assms by (auto simp: or_result_def shl_unsigned_def shr_unsigned_def)

lemma unsigned_rotr_undefined:
  fixes v :: "'a::len word"
  assumes "k \<le> 0 \<or> int LENGTH('a) \<le> k"
  shows "or_result (shr_unsigned v k) (shl_unsigned v (int LENGTH('a) - k)) = Inl Undefined_Shift"
  using assms by (auto simp: or_result_def shl_unsigned_def shr_unsigned_def)

section \<open>The shift-and-mask byte swap reverses the bytes\<close>

lemma bit_word_of_bytes:
  "bit (word_of_bytes bs :: 'a::len word) n \<longleftrightarrow>
     n < LENGTH('a) \<and> n div 8 < length bs \<and> bit (bs ! (n div 8)) (n mod 8)"
proof (induction bs arbitrary: n)
  case Nil
  then show ?case by simp
next
  case (Cons b bs)
  show ?case
  proof (cases "n < 8")
    case True
    then show ?thesis
      by (auto simp: bit_or_iff bit_push_bit_iff bit_ucast_iff dest: bit_imp_le_length)
  next
    case False
    then have d: "n div 8 = Suc ((n - 8) div 8)" and m: "(n - 8) mod 8 = n mod 8"
      by (simp_all add: le_div_geq le_mod_geq)
    from False have nb: "\<not> bit b n"
      by (auto dest: bit_imp_le_length)
    show ?thesis using False nb
      by (auto simp: bit_or_iff bit_push_bit_iff bit_ucast_iff Cons.IH d m)
  qed
qed

lemma bit_bytes_of:
  "i < LENGTH('a) div 8 \<Longrightarrow> bit (bytes_of (v :: 'a::len word) ! i) m \<longleftrightarrow> m < 8 \<and> bit v (8 * i + m)"
  by (auto simp: bytes_of_def bit_ucast_iff bit_drop_bit_eq)

lemma length_bytes_of: "length (bytes_of (v :: 'a::len word)) = LENGTH('a) div 8"
  by (simp add: bytes_of_def)

lemma bit_intrinsic_bswap:
  "bit (intrinsic_bswap (v :: 'a::len word)) n \<longleftrightarrow>
     n < LENGTH('a) \<and> n div 8 < LENGTH('a) div 8
       \<and> bit v (8 * (LENGTH('a) div 8 - 1 - n div 8) + n mod 8)"
proof (cases "n div 8 < LENGTH('a) div 8")
  case True
  then have "rev (bytes_of v) ! (n div 8) = bytes_of v ! (LENGTH('a) div 8 - 1 - n div 8)"
    by (simp add: rev_nth length_bytes_of)
  moreover have "LENGTH('a) div 8 - 1 - n div 8 < LENGTH('a) div 8" using True by simp
  ultimately show ?thesis using True
    by (simp add: intrinsic_bswap_def bit_word_of_bytes length_bytes_of bit_bytes_of)
next
  case False
  then show ?thesis by (simp add: intrinsic_bswap_def bit_word_of_bytes length_bytes_of)
qed

lemma mask_literals32:
  "(0xff :: 32 word) = mask 8" "(0xff00 :: 32 word) = push_bit 8 (mask 8)"
  "(0xff0000 :: 32 word) = push_bit 16 (mask 8)" "(0xff000000 :: 32 word) = push_bit 24 (mask 8)"
  by (simp_all add: mask_eq_exp_minus_1 push_bit_eq_mult)

lemma bswap32_portable:
  "push_bit 24 (val AND 0xff) OR push_bit 8 (val AND 0xff00)
           OR drop_bit 8 (val AND 0xff0000) OR drop_bit 24 (val AND 0xff000000)
   = intrinsic_bswap (val :: 32 word)"
proof (rule bit_word_eqI)
  fix n :: nat assume "n < LENGTH(32)"
  then have n: "n < 32" by simp
  then consider "n < 8" | "8 \<le> n" "n < 16" | "16 \<le> n" "n < 24" | "24 \<le> n" "n < 32"
    by linarith
  then show "bit (push_bit 24 (val AND 0xff) OR push_bit 8 (val AND 0xff00)
           OR drop_bit 8 (val AND 0xff0000) OR drop_bit 24 (val AND 0xff000000)) n
    = bit (intrinsic_bswap val) n"
  proof cases
    case 1 
    then have "n div 8 = 0" "n mod 8 = n" by simp_all
    with 1 n show ?thesis
    by (auto simp add: bit_intrinsic_bswap mask_literals32 bit_or_iff bit_and_iff bit_push_bit_iff bit_drop_bit_eq bit_mask_iff)
  next
    case 2
    then have "n div 8 = 1" "n mod 8 = n - 8" by presburger+
    with 2 n show ?thesis
    by (auto simp add: bit_intrinsic_bswap mask_literals32 bit_or_iff bit_and_iff bit_push_bit_iff bit_drop_bit_eq bit_mask_iff)
  next
    case 3
    then have "n div 8 = 2" "n mod 8 = n - 16" by presburger+
    with 3 n show ?thesis
    by (auto simp add: bit_intrinsic_bswap mask_literals32 bit_or_iff bit_and_iff bit_push_bit_iff bit_drop_bit_eq bit_mask_iff)
  next
    case 4
    then have "n div 8 = 3" "n mod 8 = n - 24" by presburger+
    with 4 n show ?thesis
    by (auto simp add: bit_intrinsic_bswap mask_literals32 bit_or_iff bit_and_iff bit_push_bit_iff bit_drop_bit_eq bit_mask_iff)
  qed
qed


lemma mask_literals64:
  "(0xff :: 64 word) = mask 8" "(0xff00 :: 64 word) = push_bit 8 (mask 8)"
  "(0xff0000 :: 64 word) = push_bit 16 (mask 8)" "(0xff000000 :: 64 word) = push_bit 24 (mask 8)"
  "(0xff00000000 :: 64 word) = push_bit 32 (mask 8)"
  "(0xff0000000000 :: 64 word) = push_bit 40 (mask 8)"
  "(0xff000000000000 :: 64 word) = push_bit 48 (mask 8)"
  "(0xff00000000000000 :: 64 word) = push_bit 56 (mask 8)"
  by (simp_all add: mask_eq_exp_minus_1 push_bit_eq_mult)

lemma bswap64_portable:
  "push_bit 56 (val AND 0xff) OR push_bit 40 (val AND 0xff00)
           OR push_bit 24 (val AND 0xff0000) OR push_bit 8 (val AND 0xff000000)
           OR drop_bit 8 (val AND 0xff00000000) OR drop_bit 24 (val AND 0xff0000000000)
           OR drop_bit 40 (val AND 0xff000000000000)
           OR drop_bit 56 (val AND 0xff00000000000000)
   = intrinsic_bswap (val :: 64 word)"
proof (rule bit_word_eqI)
  fix n :: nat assume "n < LENGTH(64)"
  then have n: "n < 64" by simp
  then consider "n < 8" | "8 \<le> n" "n < 16" | "16 \<le> n" "n < 24" | "24 \<le> n" "n < 32" | "32 \<le> n" "n < 40" | "40 \<le> n" "n < 48" | "48 \<le> n" "n < 56" | "56 \<le> n" "n < 64"
    by linarith
  then show "bit (push_bit 56 (val AND 0xff) OR push_bit 40 (val AND 0xff00)
           OR push_bit 24 (val AND 0xff0000) OR push_bit 8 (val AND 0xff000000)
           OR drop_bit 8 (val AND 0xff00000000) OR drop_bit 24 (val AND 0xff0000000000)
           OR drop_bit 40 (val AND 0xff000000000000)
           OR drop_bit 56 (val AND 0xff00000000000000)) n
    = bit (intrinsic_bswap val) n"
  proof cases
    case 1
    then have "n div 8 = 0" "n mod 8 = n" by simp_all
    with 1 n show ?thesis
      by (auto simp add: bit_intrinsic_bswap mask_literals64 bit_or_iff bit_and_iff bit_push_bit_iff bit_drop_bit_eq bit_mask_iff)
  next
    case 2
    then have "n div 8 = 1" "n mod 8 = n - 8" by presburger+
    with 2 n show ?thesis
      by (auto simp add: bit_intrinsic_bswap mask_literals64 bit_or_iff bit_and_iff bit_push_bit_iff bit_drop_bit_eq bit_mask_iff)
  next
    case 3
    then have "n div 8 = 2" "n mod 8 = n - 16" by presburger+
    with 3 n show ?thesis
      by (auto simp add: bit_intrinsic_bswap mask_literals64 bit_or_iff bit_and_iff bit_push_bit_iff bit_drop_bit_eq bit_mask_iff)
  next
    case 4
    then have "n div 8 = 3" "n mod 8 = n - 24" by presburger+
    with 4 n show ?thesis
      by (auto simp add: bit_intrinsic_bswap mask_literals64 bit_or_iff bit_and_iff bit_push_bit_iff bit_drop_bit_eq bit_mask_iff)
  next
    case 5
    then have "n div 8 = 4" "n mod 8 = n - 32" by presburger+
    with 5 n show ?thesis
      by (auto simp add: bit_intrinsic_bswap mask_literals64 bit_or_iff bit_and_iff bit_push_bit_iff bit_drop_bit_eq bit_mask_iff)
  next
    case 6
    then have "n div 8 = 5" "n mod 8 = n - 40" by presburger+
    with 6 n show ?thesis
      by (auto simp add: bit_intrinsic_bswap mask_literals64 bit_or_iff bit_and_iff bit_push_bit_iff bit_drop_bit_eq bit_mask_iff)
  next
    case 7
    then have "n div 8 = 6" "n mod 8 = n - 48" by presburger+
    with 7 n show ?thesis
      by (auto simp add: bit_intrinsic_bswap mask_literals64 bit_or_iff bit_and_iff bit_push_bit_iff bit_drop_bit_eq bit_mask_iff)
  next
    case 8
    then have "n div 8 = 7" "n mod 8 = n - 56" by presburger+
    with 8 n show ?thesis
      by (auto simp add: bit_intrinsic_bswap mask_literals64 bit_or_iff bit_and_iff bit_push_bit_iff bit_drop_bit_eq bit_mask_iff)
  qed
qed

lemma bswap16_portable:
  "(ucast (push_bit 8 ((ucast val :: 32 word) AND 0xff)
                  OR signed_drop_bit 8 ((ucast val :: 32 word) AND 0xff00)) :: 16 word)
   = intrinsic_bswap (val :: 16 word)"
proof (rule bit_word_eqI)
  fix n :: nat assume "n < LENGTH(16)"
  then have n: "n < 16" by simp
  then consider "n < 8" | "8 \<le> n" "n < 16"
    by linarith
  then show "bit (ucast (push_bit 8 ((ucast val :: 32 word) AND 0xff)
                  OR signed_drop_bit 8 ((ucast val :: 32 word) AND 0xff00)) :: 16 word) n
    = bit (intrinsic_bswap val) n"
  proof cases
    case 1
    then have "n div 8 = 0" "n mod 8 = n" by simp_all
    with 1 n show ?thesis
      by (auto simp add: bit_intrinsic_bswap mask_literals32 bit_or_iff bit_and_iff bit_push_bit_iff
          bit_signed_drop_bit_iff bit_mask_iff bit_ucast_iff)
  next
    case 2
    then have "n div 8 = 1" "n mod 8 = n - 8" by presburger+
    with 2 n show ?thesis
      by (auto simp add: bit_intrinsic_bswap mask_literals32 bit_or_iff bit_and_iff bit_push_bit_iff
          bit_signed_drop_bit_iff bit_mask_iff bit_ucast_iff)
  qed
qed

lemma intrinsic_bswap_involution:
  fixes v :: "'a::len word"
  assumes "8 dvd LENGTH('a)"
  shows "intrinsic_bswap (intrinsic_bswap v) = v"
proof (rule bit_word_eqI)
  fix n assume n: "n < LENGTH('a)"
  define N where "N = LENGTH('a) div 8"
  have L: "LENGTH('a) = 8 * N" using assms by (simp add: N_def)
  define q where "q = n div 8"
  define r where "r = n mod 8"
  have nqr: "n = 8 * q + r" and r: "r < 8" by (simp_all add: q_def r_def)
  have q: "q < N" using n L nqr by simp
  define j where "j = 8 * (N - 1 - q) + r"
  have jd: "j div 8 = N - 1 - q" and jm: "j mod 8 = r" using r by (simp_all add: j_def)
  have jl: "j < LENGTH('a)" using q r L by (simp add: j_def)
  have rt: "8 * (N - 1 - (N - 1 - q)) + r = n" using q nqr by simp
  have "bit (intrinsic_bswap (intrinsic_bswap v)) n = bit (intrinsic_bswap v) j"
    using n q by (simp add: bit_intrinsic_bswap [of "intrinsic_bswap v"] N_def [symmetric] q_def [symmetric] r_def [symmetric] j_def)
  also have "\<dots> = bit v n"
    using jl q by (simp add: bit_intrinsic_bswap [of v] N_def [symmetric] jd jm rt nqr [symmetric])
  finally show "bit (intrinsic_bswap (intrinsic_bswap v)) n = bit v n" .
qed

text \<open>The shifts of the byte swaps have literal counts below the width of their operand: none
  of them faults, so the bundles apply \<open>push_bit\<close> and \<open>drop_bit\<close> directly.\<close>

lemma bswap16_literal_shifts_defined:
  "shl_int ((ucast (val :: 16 word) :: 32 word) AND 0xff) 8
     = Inr (push_bit 8 ((ucast val :: 32 word) AND 0xff))"
  "shr_int ((ucast (val :: 16 word) :: 32 word) AND 0xff00) 8
     = Inr (signed_drop_bit 8 ((ucast val :: 32 word) AND 0xff00))"
proof -
  have m: "(0xff :: 16 word) = mask 8"
    by (simp add: mask_eq_exp_minus_1)
  have "(ucast val :: 32 word) AND 0xff = ucast (val AND 0xff)"
    by (rule bit_word_eqI) (auto simp: bit_and_iff bit_ucast_iff mask_literals32 m bit_mask_iff)
  then show "shl_int ((ucast val :: 32 word) AND 0xff) 8
     = Inr (push_bit 8 ((ucast val :: 32 word) AND 0xff))"
    using shl_int_promoted [where v = "val AND 0xff" and n = 8] by simp
  show "shr_int ((ucast val :: 32 word) AND 0xff00) 8
     = Inr (signed_drop_bit 8 ((ucast val :: 32 word) AND 0xff00))"
    by (simp add: shr_int_def)
qed

lemma bswap_literal_shifts_defined:
  "shl_unsigned (a :: 32 word) 24 = Inr (push_bit 24 a)"
  "shl_unsigned (a :: 32 word) 8 = Inr (push_bit 8 a)"
  "shr_unsigned (a :: 32 word) 8 = Inr (drop_bit 8 a)"
  "shr_unsigned (a :: 32 word) 24 = Inr (drop_bit 24 a)"
  "shl_unsigned (b :: 64 word) 56 = Inr (push_bit 56 b)"
  "shl_unsigned (b :: 64 word) 40 = Inr (push_bit 40 b)"
  "shl_unsigned (b :: 64 word) 24 = Inr (push_bit 24 b)"
  "shl_unsigned (b :: 64 word) 8 = Inr (push_bit 8 b)"
  "shr_unsigned (b :: 64 word) 8 = Inr (drop_bit 8 b)"
  "shr_unsigned (b :: 64 word) 24 = Inr (drop_bit 24 b)"
  "shr_unsigned (b :: 64 word) 40 = Inr (drop_bit 40 b)"
  "shr_unsigned (b :: 64 word) 56 = Inr (drop_bit 56 b)"
  by (simp_all add: shl_unsigned_def shr_unsigned_def)

section \<open>The generic functions at each width\<close>

lemma rotateBitsLeft_8:
  assumes "0 \<le> k" "k \<le> 8"
  shows "rotateBitsLeft cfg (v :: 8 word) k = Inr (intrinsic_rotl v k)"
  using assms promoted_rotl [where v = v and k = k]
  by (simp add: rotateBitsLeft_def IntOpImpl1_rotateBitsLeftImpl_def convert_result_def)

lemma rotateBitsRight_8:
  assumes "0 \<le> k" "k \<le> 8"
  shows "rotateBitsRight cfg (v :: 8 word) k = Inr (intrinsic_rotr v k)"
  using assms promoted_rotr [where v = v and k = k]
  by (simp add: rotateBitsRight_def IntOpImpl1_rotateBitsRightImpl_def convert_result_def)

lemma rotateBitsLeft_16:
  assumes "0 \<le> k" "k \<le> 16"
  shows "rotateBitsLeft cfg (v :: 16 word) k = Inr (intrinsic_rotl v k)"
  using assms promoted_rotl [where v = v and k = k]
  by (simp add: rotateBitsLeft_def IntOpImpl2_rotateBitsLeftImpl_def convert_result_def)

lemma rotateBitsRight_16:
  assumes "0 \<le> k" "k \<le> 16"
  shows "rotateBitsRight cfg (v :: 16 word) k = Inr (intrinsic_rotr v k)"
  using assms promoted_rotr [where v = v and k = k]
  by (simp add: rotateBitsRight_def IntOpImpl2_rotateBitsRightImpl_def convert_result_def)

lemma rotateBitsLeft_32:
  assumes "MSC_VER cfg \<or> (0 < k \<and> k < 32)"
  shows "rotateBitsLeft cfg (v :: 32 word) k = Inr (intrinsic_rotl v k)"
  using assms unsigned_rotl [where v = v and k = k]
  by (auto simp add: rotateBitsLeft_def IntOpImpl4_rotateBitsLeftImpl_def convert_result_def)

lemma rotateBitsRight_32:
  assumes "MSC_VER cfg \<or> (0 < k \<and> k < 32)"
  shows "rotateBitsRight cfg (v :: 32 word) k = Inr (intrinsic_rotr v k)"
  using assms unsigned_rotr [where v = v and k = k]
  by (auto simp add: rotateBitsRight_def IntOpImpl4_rotateBitsRightImpl_def convert_result_def)

lemma rotateBitsLeft_64:
  assumes "MSC_VER cfg \<or> (0 < k \<and> k < 64)"
  shows "rotateBitsLeft cfg (v :: 64 word) k = Inr (intrinsic_rotl v k)"
  using assms unsigned_rotl [where v = v and k = k]
  by (auto simp add: rotateBitsLeft_def IntOpImpl8_rotateBitsLeftImpl_def convert_result_def)

lemma rotateBitsRight_64:
  assumes "MSC_VER cfg \<or> (0 < k \<and> k < 64)"
  shows "rotateBitsRight cfg (v :: 64 word) k = Inr (intrinsic_rotr v k)"
  using assms unsigned_rotr [where v = v and k = k]
  by (auto simp add: rotateBitsRight_def IntOpImpl8_rotateBitsRightImpl_def convert_result_def)

lemma rotateBitsLeft_32_undefined:
  assumes "\<not> MSC_VER cfg" "k \<le> 0 \<or> 32 \<le> k"
  shows "rotateBitsLeft cfg (v :: 32 word) k = Inl Undefined_Shift"
  using assms unsigned_rotl_undefined [where v = "v" and k = k]
  by (simp add: rotateBitsLeft_def IntOpImpl4_rotateBitsLeftImpl_def convert_result_def)

lemma rotateBitsRight_32_undefined:
  assumes "\<not> MSC_VER cfg" "k \<le> 0 \<or> 32 \<le> k"
  shows "rotateBitsRight cfg (v :: 32 word) k = Inl Undefined_Shift"
  using assms unsigned_rotr_undefined [where v = "v" and k = k]
  by (simp add: rotateBitsRight_def IntOpImpl4_rotateBitsRightImpl_def convert_result_def)

lemma rotateBitsLeft_64_undefined:
  assumes "\<not> MSC_VER cfg" "k \<le> 0 \<or> 64 \<le> k"
  shows "rotateBitsLeft cfg (v :: 64 word) k = Inl Undefined_Shift"
  using assms unsigned_rotl_undefined [where v = "v" and k = k]
  by (simp add: rotateBitsLeft_def IntOpImpl8_rotateBitsLeftImpl_def convert_result_def)

lemma rotateBitsRight_64_undefined:
  assumes "\<not> MSC_VER cfg" "k \<le> 0 \<or> 64 \<le> k"
  shows "rotateBitsRight cfg (v :: 64 word) k = Inl Undefined_Shift"
  using assms unsigned_rotr_undefined [where v = "v" and k = k]
  by (simp add: rotateBitsRight_def IntOpImpl8_rotateBitsRightImpl_def convert_result_def)


lemma invertByteOrder_8: "invertByteOrder cfg (v :: 8 word) = Inr v"
  by (simp add: invertByteOrder_def IntOpImpl1_invertByteOrderImpl_def)

lemma invertByteOrder_16: "invertByteOrder cfg (v :: 16 word) = Inr (intrinsic_bswap v)"
  unfolding invertByteOrder_def IntOpImpl2_invertByteOrderImpl_def bswap16_portable by simp

lemma invertByteOrder_32: "invertByteOrder cfg (v :: 32 word) = Inr (intrinsic_bswap v)"
  unfolding invertByteOrder_def IntOpImpl4_invertByteOrderImpl_def bswap32_portable by simp

lemma invertByteOrder_64: "invertByteOrder cfg (v :: 64 word) = Inr (intrinsic_bswap v)"
  unfolding invertByteOrder_def IntOpImpl8_invertByteOrderImpl_def bswap64_portable by simp



section \<open>Rotations that are defined, and the byte swap at the boundary values\<close>

lemma intrinsic_rotl_by_zero: "intrinsic_rotl v 0 = v"
  by (simp add: intrinsic_rotl_def word_rotl_zero)

lemma intrinsic_rotr_by_zero: "intrinsic_rotr v 0 = v"
  by (simp add: intrinsic_rotr_def word_rotr_zero)

lemma intrinsic_rotl_by_width: "intrinsic_rotl (v :: 'a::len word) (int LENGTH('a)) = v"
  by (simp add: intrinsic_rotl_def word_rotl_zero)

lemma intrinsic_rotr_by_width: "intrinsic_rotr (v :: 'a::len word) (int LENGTH('a)) = v"
  by (simp add: intrinsic_rotr_def word_rotr_zero)

lemma round_trip_8:
  assumes "0 \<le> k" "k \<le> 8"
  shows "rotate_left_then_right cfg (v :: 8 word) k = Inr v"
    and "rotate_right_then_left cfg (v :: 8 word) k = Inr v"
  using assms
  by (simp_all add: rotate_left_then_right_def rotate_right_then_left_def rotateBitsLeft_8
      rotateBitsRight_8 and_then_def intrinsic_rotr_rotl intrinsic_rotl_rotr)

lemma round_trip_16:
  assumes "0 \<le> k" "k \<le> 16"
  shows "rotate_left_then_right cfg (v :: 16 word) k = Inr v"
    and "rotate_right_then_left cfg (v :: 16 word) k = Inr v"
  using assms
  by (simp_all add: rotate_left_then_right_def rotate_right_then_left_def rotateBitsLeft_16
      rotateBitsRight_16 and_then_def intrinsic_rotr_rotl intrinsic_rotl_rotr)

lemma round_trip_32:
  assumes "MSC_VER cfg \<or> (0 < k \<and> k < 32)"
  shows "rotate_left_then_right cfg (v :: 32 word) k = Inr v"
    and "rotate_right_then_left cfg (v :: 32 word) k = Inr v"
  using assms
  by (simp_all add: rotate_left_then_right_def rotate_right_then_left_def rotateBitsLeft_32
      rotateBitsRight_32 and_then_def intrinsic_rotr_rotl intrinsic_rotl_rotr)

lemma round_trip_64:
  assumes "MSC_VER cfg \<or> (0 < k \<and> k < 64)"
  shows "rotate_left_then_right cfg (v :: 64 word) k = Inr v"
    and "rotate_right_then_left cfg (v :: 64 word) k = Inr v"
  using assms
  by (simp_all add: rotate_left_then_right_def rotate_right_then_left_def rotateBitsLeft_64
      rotateBitsRight_64 and_then_def intrinsic_rotr_rotl intrinsic_rotl_rotr)

lemma rotate_by_zero_narrow:
  "rotateBitsLeft cfg (v8 :: 8 word) 0 = Inr v8"
  "rotateBitsRight cfg (v8 :: 8 word) 0 = Inr v8"
  "rotateBitsLeft cfg (v16 :: 16 word) 0 = Inr v16"
  "rotateBitsRight cfg (v16 :: 16 word) 0 = Inr v16"
  by (simp_all add: rotateBitsLeft_8 rotateBitsRight_8 rotateBitsLeft_16 rotateBitsRight_16
      intrinsic_rotl_by_zero intrinsic_rotr_by_zero)

lemma rotate_by_width_narrow:
  "rotateBitsLeft cfg (v8 :: 8 word) 8 = Inr v8"
  "rotateBitsRight cfg (v8 :: 8 word) 8 = Inr v8"
  "rotateBitsLeft cfg (v16 :: 16 word) 16 = Inr v16"
  "rotateBitsRight cfg (v16 :: 16 word) 16 = Inr v16"
  using intrinsic_rotl_by_width [of v8] intrinsic_rotr_by_width [of v8]
    intrinsic_rotl_by_width [of v16] intrinsic_rotr_by_width [of v16]
  by (simp_all add: rotateBitsLeft_8 rotateBitsRight_8 rotateBitsLeft_16 rotateBitsRight_16)

lemma rotate_by_zero_or_width_intrinsic:
  assumes "MSC_VER cfg"
  shows "rotateBitsLeft cfg (v32 :: 32 word) 0 = Inr v32"
    and "rotateBitsRight cfg (v32 :: 32 word) 0 = Inr v32"
    and "rotateBitsLeft cfg (v32 :: 32 word) 32 = Inr v32"
    and "rotateBitsRight cfg (v32 :: 32 word) 32 = Inr v32"
    and "rotateBitsLeft cfg (v64 :: 64 word) 0 = Inr v64"
    and "rotateBitsRight cfg (v64 :: 64 word) 0 = Inr v64"
    and "rotateBitsLeft cfg (v64 :: 64 word) 64 = Inr v64"
    and "rotateBitsRight cfg (v64 :: 64 word) 64 = Inr v64"
  using assms intrinsic_rotl_by_width [of v32] intrinsic_rotr_by_width [of v32]
    intrinsic_rotl_by_width [of v64] intrinsic_rotr_by_width [of v64]
  by (simp_all add: rotateBitsLeft_32 rotateBitsRight_32 rotateBitsLeft_64 rotateBitsRight_64
      intrinsic_rotl_by_zero intrinsic_rotr_by_zero)

lemma invertByteOrder_zero:
  "invertByteOrder cfg (0 :: 8 word) = Inr 0"
  "invertByteOrder cfg (0 :: 16 word) = Inr 0"
  "invertByteOrder cfg (0 :: 32 word) = Inr 0"
  "invertByteOrder cfg (0 :: 64 word) = Inr 0"
proof -
  have z: "intrinsic_bswap (0 :: 'a::len word) = 0" 
    by (rule bit_word_eqI) (simp add: bit_intrinsic_bswap)
  show "invertByteOrder cfg (0 :: 8 word) = Inr 0"
    by (simp add: invertByteOrder_8)
  show "invertByteOrder cfg (0 :: 16 word) = Inr 0"
    by (simp add: invertByteOrder_16 z)
  show "invertByteOrder cfg (0 :: 32 word) = Inr 0"
    by (simp add: invertByteOrder_32 z)
  show "invertByteOrder cfg (0 :: 64 word) = Inr 0"
    by (simp add: invertByteOrder_64 z)
qed

lemma invertByteOrder_eight_bytes:
  "invertByteOrder cfg (0x0102030405060708 :: 64 word) = Inr 0x0807060504030201"
proof -
  have "intrinsic_bswap (0x0102030405060708 :: 64 word) = 0x0807060504030201"
    by (simp add: bswap64_portable [symmetric])
  then show ?thesis
    by (simp add: invertByteOrder_64)
qed

text \<open>With the rotate intrinsics the counts 0 and 32 are rotations by nothing.\<close>

lemma intrinsic_path_round_trip_zero_count:
  "rotate_left_then_right msc_config (1 :: 32 word) 0 = Inr 1"
  by (simp add: round_trip_32 msc_config_def)

section \<open>Comparison of floating-point values\<close>

lemma ieee_eq_refl_iff: "ieee_eq x x = (x \<noteq> NaN)"
  by (cases x) simp_all

section \<open>The properties\<close>

text \<open>
  C1. For every width of 8, 16, 32 or 64 bits, every value \<open>v\<close> and every count \<open>k\<close> with
  \<open>0 \<le> k\<close> below the width, rotating \<open>v\<close> left by \<open>k\<close> and the result right by \<open>k\<close> gives
  \<open>v\<close> back, and so does rotating right and then left. Lemmas \<open>round_trip_8\<close>,
  \<open>round_trip_16\<close>, \<open>round_trip_32\<close> and \<open>round_trip_64\<close> prove this for the widths 8
  and 16 and, at the widths 32 and 64, for every count from 1 on and for every count
  where the intrinsics are used. What is left is the count 0 at the widths 32 and 64
  where the shift idiom is compiled: there \<^verbatim>\<open>val >> (32 - 0)\<close> shifts a 32-bit operand by
  32, which C++ leaves undefined, so the round trip has no defined result.
\<close>

theorem rotate_round_trip_zero_count_undefined:
  "rotate_left_then_right gnu_config (1 :: 32 word) 0 = Inl Undefined_Shift
   \<and> rotate_right_then_left gnu_config (1 :: 32 word) 0 = Inl Undefined_Shift
   \<and> rotate_left_then_right gnu_config (1 :: 64 word) 0 = Inl Undefined_Shift
   \<and> rotate_right_then_left gnu_config (1 :: 64 word) 0 = Inl Undefined_Shift"
  by (simp add: rotate_left_then_right_def rotate_right_then_left_def and_then_def
      rotateBitsLeft_32_undefined rotateBitsRight_32_undefined
      rotateBitsLeft_64_undefined rotateBitsRight_64_undefined gnu_config_def)

text \<open>
  C2. For every integer type of 1, 2, 4 or 8 bytes and every value \<open>v\<close> of it,
  \<^verbatim>\<open>invertByteOrder(invertByteOrder(v))\<close> is \<open>v\<close>, in every build configuration; at one
  byte \<^verbatim>\<open>invertByteOrder\<close> is the identity.
\<close>

theorem invertByteOrder_involution:
  "invertByteOrder cfg (v8 :: 8 word) = Inr v8
   \<and> invert_twice cfg (v8 :: 8 word) = Inr v8
   \<and> invert_twice cfg (v16 :: 16 word) = Inr v16
   \<and> invert_twice cfg (v32 :: 32 word) = Inr v32
   \<and> invert_twice cfg (v64 :: 64 word) = Inr v64"
  by (simp add: invert_twice_def invertByteOrder_8 invertByteOrder_16 invertByteOrder_32
      invertByteOrder_64 and_then_def intrinsic_bswap_involution)

text \<open>
  C3. For every integer type and every value \<open>v\<close> of it, \<^verbatim>\<open>isNan(v)\<close> is false and
  \<^verbatim>\<open>isFinite(v)\<close> is true, whichever way the two configuration symbols are set.
\<close>

theorem integer_never_nan_always_finite:
  "isNan cfg (integer_type is_signed) (v :: 'a::len word) = False
   \<and> isFinite cfg (integer_type is_signed) (v :: 'a::len word) = True"
  by (simp add: isNan_def isFinite_def MscNumberUtilHelper_isNan_def
      MscNumberUtilHelper_isFinite_def integer_type_def)

text \<open>
  C4. For each of the thirteen base types with a \<^verbatim>\<open>std::hash\<close> specialisation and every
  value \<open>x\<close>, the hash of \<^verbatim>\<open>Number<T>{x}\<close> is the host's hash of \<open>x\<close>.
\<close>

theorem hash_Number_is_hash_of_value:
  "hash_Number std_hash (Number_ctor x) = std_hash x"
  by (simp add: hash_Number_def getValue_def Number_ctor_def)

text \<open>
  C5. \<^verbatim>\<open>invertByteOrder\<close> maps the 16-bit value \<^verbatim>\<open>0x1234\<close> to \<^verbatim>\<open>0x3412\<close> and the 32-bit value
  \<^verbatim>\<open>0x11223344\<close> to \<^verbatim>\<open>0x44332211\<close>; \<^verbatim>\<open>rotateBitsLeft\<close> maps the 16-bit value \<^verbatim>\<open>0xF000\<close>
  with count 4 to \<^verbatim>\<open>0x000F\<close>, and \<^verbatim>\<open>rotateBitsRight\<close> maps \<^verbatim>\<open>0x000F\<close> with count 4 to
  \<^verbatim>\<open>0xF000\<close>, in every build configuration.
\<close>

theorem bit_operation_examples:
  "invertByteOrder cfg (0x1234 :: 16 word) = Inr 0x3412
   \<and> invertByteOrder cfg (0x11223344 :: 32 word) = Inr 0x44332211
   \<and> rotateBitsLeft cfg (0xF000 :: 16 word) 4 = Inr 0x000F
   \<and> rotateBitsRight cfg (0x000F :: 16 word) 4 = Inr 0xF000"
proof -
  have a: "intrinsic_bswap (0x1234 :: 16 word) = 0x3412"
    by (simp add: bswap16_portable [symmetric])
  have b: "intrinsic_bswap (0x11223344 :: 32 word) = 0x44332211"
    by (simp add: bswap32_portable [symmetric])
  have c: "word_rotl 4 (0xF000 :: 16 word) = 0x000F"
    using rotl_idiom_total [where k = 4 and v = "0xF000 :: 16 word"] by simp
  have d: "word_rotr 4 (0x000F :: 16 word) = 0xF000"
    using rotr_idiom_total [where k = 4 and v = "0x000F :: 16 word"] by simp
  show ?thesis
    by (simp add: invertByteOrder_16 invertByteOrder_32 rotateBitsLeft_16 rotateBitsRight_16
        intrinsic_rotl_in_range intrinsic_rotr_in_range a b c d)
qed

text \<open>
  C6. At every width of 1, 2, 4 or 8 bytes a rotation by 0 and a rotation by the full
  bit width return the value unchanged, \<^verbatim>\<open>invertByteOrder(0)\<close> is 0, and
  \<^verbatim>\<open>invertByteOrder\<close> maps the 8-byte value \<^verbatim>\<open>0x0102030405060708\<close> to
  \<^verbatim>\<open>0x0807060504030201\<close>. Lemmas \<open>rotate_by_zero_narrow\<close>, \<open>rotate_by_width_narrow\<close>,
  \<open>rotate_by_zero_or_width_intrinsic\<close>, \<open>invertByteOrder_zero\<close> and
  \<open>invertByteOrder_eight_bytes\<close> prove all of this except the rotations of 4-byte and
  8-byte values where the shift idiom is compiled: a count of 0 makes the idiom shift by
  the full width in one direction, a count of the full width in the other, and C++
  leaves both undefined.
\<close>

theorem rotate_by_zero_or_width_undefined:
  "rotateBitsLeft gnu_config (1 :: 32 word) 0 = Inl Undefined_Shift
   \<and> rotateBitsRight gnu_config (1 :: 32 word) 0 = Inl Undefined_Shift
   \<and> rotateBitsLeft gnu_config (1 :: 32 word) 32 = Inl Undefined_Shift
   \<and> rotateBitsRight gnu_config (1 :: 32 word) 32 = Inl Undefined_Shift
   \<and> rotateBitsLeft gnu_config (1 :: 64 word) 0 = Inl Undefined_Shift
   \<and> rotateBitsRight gnu_config (1 :: 64 word) 0 = Inl Undefined_Shift
   \<and> rotateBitsLeft gnu_config (1 :: 64 word) 64 = Inl Undefined_Shift
   \<and> rotateBitsRight gnu_config (1 :: 64 word) 64 = Inl Undefined_Shift"
  by (simp add: rotateBitsLeft_32_undefined rotateBitsRight_32_undefined
      rotateBitsLeft_64_undefined rotateBitsRight_64_undefined gnu_config_def)

text \<open>
  C7. For a floating-point type, \<^verbatim>\<open>isNan\<close> is false and \<^verbatim>\<open>isFinite\<close> is true on every
  finite value, \<^verbatim>\<open>isNan(Number<T>::nan())\<close> is true and
  \<^verbatim>\<open>isFinite(Number<T>::infinity())\<close> is false, whichever way the two configuration
  symbols are set.
\<close>

theorem floating_nan_and_finite:
  "isNan cfg (floating_type rnd) (Finite r) = False
   \<and> isFinite cfg (floating_type rnd) (Finite r) = True
   \<and> isNan cfg (floating_type rnd) (Number_nan (floating_type rnd)) = True
   \<and> isFinite cfg (floating_type rnd) (Number_infinity (floating_type rnd)) = False"
  by (simp add: isNan_def isFinite_def MscNumberUtilHelper_isNan_def
      MscNumberUtilHelper_isFinite_def floating_type_def Number_nan_def Number_infinity_def)

text \<open>
  C8, as stated: \<^verbatim>\<open>Number<T>{v} == v\<close> is true for every numeric type and every value.
  It is false for the NaN of a floating-point type, which is equal to nothing.
\<close>

theorem nan_wrapper_not_equal_to_nan:
  "\<not> operator_eq (floating_type Finite) (Number_ctor NaN) NaN"
  by (simp add: operator_eq_def floating_type_def Number_ctor_def)

text \<open>
  C8, amended. For every numeric type \<open>T\<close> and all values \<open>v\<close> and \<open>w\<close> of it, each of the
  six comparisons of \<^verbatim>\<open>Number<T>{v}\<close> with \<open>w\<close> gives what the built-in comparison of \<open>v\<close>
  with \<open>w\<close> gives. \<^verbatim>\<open>Number<T>{v} == v\<close> is true for every value of an integer type; for
  a floating-point type it is true exactly when \<open>v\<close> is not NaN.
\<close>

theorem comparison_delegates:
  "operator_eq T (Number_ctor v) w = builtin_eq T v w
   \<and> operator_ne T (Number_ctor v) w = builtin_ne T v w
   \<and> operator_lt T (Number_ctor v) w = builtin_lt T v w
   \<and> operator_le T (Number_ctor v) w = builtin_le T v w
   \<and> operator_gt T (Number_ctor v) w = builtin_gt T v w
   \<and> operator_ge T (Number_ctor v) w = builtin_ge T v w
   \<and> operator_eq (integer_type is_signed) (Number_ctor u) (u :: 'a::len word) = True
   \<and> operator_eq (floating_type rnd) (Number_ctor x) x = (x \<noteq> NaN)"
  by (simp add: operator_eq_def operator_ne_def operator_lt_def operator_le_def operator_gt_def
      operator_ge_def Number_ctor_def integer_type_def floating_type_def ieee_eq_refl_iff)

text \<open>
  C9. For every integer base type \<^verbatim>\<open>negativeInfinity()\<close> is 0, the value of
  \<^verbatim>\<open>infinity()\<close>; for a floating-point base type they are the negative and the positive
  infinity.
\<close>

theorem negativeInfinity_values:
  "Number_negativeInfinity (integer_type is_signed) = (0 :: 'a::len word)
   \<and> Number_infinity (integer_type is_signed) = (0 :: 'a::len word)
   \<and> Number_negativeInfinity (floating_type rnd) = Infinite Negative
   \<and> Number_infinity (floating_type rnd) = Infinite Positive"
  by (simp add: Number_negativeInfinity_def Number_infinity_def integer_type_def floating_type_def)

text \<open>
  C10. \<^verbatim>\<open>nan()\<close> is the \<^verbatim>\<open>quiet_NaN()\<close> of the base type's \<^verbatim>\<open>numeric_limits\<close>, which for
  every integer base type is 0.
\<close>

theorem nan_of_integer_type:
  "Number_nan T = limits_quiet_NaN T
   \<and> Number_nan (integer_type is_signed) = (0 :: 'a::len word)"
  by (simp add: Number_nan_def integer_type_def)

end
